theory Spec2Isabelle
  imports Complex_Main
begin

section \<open>Data model\<close>

text \<open>
  The program is the class \<open>OpenAlexExtractor\<close> of \<open>extractor_datos_openalex.py\<close>.
  Values that travel as Python dictionaries, lists and scalars (what \<open>json.dump\<close> writes and
  \<open>json.load\<close> reads) are values of \<open>json\<close>; a dictionary is an association list in
  insertion order with unique keys. A Python float that is the quotient of two integers is the
  exact rational number (\<open>JNum\<close>), rounding is not modelled.
\<close>

datatype json =
    JNull
  | JBool bool
  | JInt int
  | JNum rat
  | JStr string
  | JArr "json list"
  | JObj "(string \<times> json) list"

text \<open>The exceptions that the modelled code can raise. \<open>RenderError\<close> stands for any
  exception raised inside a \<open>visualize_*\<close> method, whose bodies are calls into pandas and
  matplotlib.\<close>

datatype exn =
    ZeroDivisionError | AttributeError | TypeError | KeyError | ValueError
  | FileNotFoundError | JSONDecodeError | RenderError

text \<open>\<open>d[k] = v\<close> on a dictionary: an existing key keeps its position.\<close>

fun dict_set :: "'k \<Rightarrow> 'v \<Rightarrow> ('k \<times> 'v) list \<Rightarrow> ('k \<times> 'v) list" where
  "dict_set k v [] = [(k, v)]"
| "dict_set k v ((k', v') # d) =
     (if k = k' then (k', v) # d else (k', v') # dict_set k v d)"

text \<open>Query parameters: the values are strings or integers (\<open>'per_page': 1\<close>).\<close>

datatype pval = PStr string | PInt int

type_synonym params = "(string \<times> pval) list"

record request =
  url :: string
  rparams :: params

text \<open>
  The body of a 200 response, as far as the program reads it: \<open>meta\<close> is \<open>Some c\<close> when the
  body has the key \<open>'meta'\<close> (with \<open>c\<close> its \<open>'count'\<close>), \<open>group_by\<close> is \<open>Some items\<close> when it
  has the key \<open>'group_by'\<close> (each item its \<open>'key'\<close> and \<open>'count'\<close>), \<open>results\<close> is
  \<open>Some rs\<close> when it has the key \<open>'results'\<close>. Counts are Python integers and group keys are
  strings, as the API documents them; the entries of \<open>results\<close> are arbitrary JSON values.
  A body with one of these keys is a non-empty dictionary, hence true in a condition.
\<close>

record response =
  meta :: "int option"
  group_by :: "(string \<times> int) list option"
  results :: "json list option"

record http_response =
  status_code :: int
  body :: response

text \<open>The five \<open>visualize_*\<close> methods.\<close>

datatype chart = OaTypes | FieldsData | TopAuthors | TopInstitutions | InternationalCollaboration

text \<open>What the program does to the outside world, in order: a GET request, a JSON file
  written under \<open>datos/\<close>, a call of a \<open>visualize_*\<close> method.\<close>

datatype event = Query request | Write string | Render chart

text \<open>A file on disk: parsed by \<open>json.load\<close> to a value, or not parseable.\<close>

datatype disk_file = Parsed json | Corrupt

text \<open>The object's attributes (\<open>__init__\<close>) together with the trace of events and the
  files of the data directory.\<close>

record state =
  email :: string
  base_url :: string
  current_year :: int
  five_years_ago :: int
  period :: string
  total_publications :: int
  trace :: "event list"
  files :: "string \<Rightarrow> disk_file option"

text \<open>The environment: the remote API (one response per request), whether a
  \<open>visualize_*\<close> method raises on the data it is given, and the date of the run.\<close>

record env =
  api :: "request \<Rightarrow> http_response"
  viz_raises :: "chart \<Rightarrow> json \<Rightarrow> bool"
  today :: string

section \<open>Construction and the API query\<close>

fun str_nat :: "nat \<Rightarrow> string" where
  "str_nat n =
     (if n < 10 then [''0123456789'' ! n]
      else str_nat (n div 10) @ [''0123456789'' ! (n mod 10)])"

declare str_nat.simps [simp del]

definition str_int :: "int \<Rightarrow> string" where
  "str_int i = (if i < 0 then ''-'' @ str_nat (nat (- i)) else str_nat (nat i))"

text \<open>\<open>__init__\<close>: \<open>year\<close> is \<open>datetime.now().year\<close>; the trace is empty and \<open>fs\<close> is the
  data directory as found.\<close>

definition init :: "string \<Rightarrow> int \<Rightarrow> (string \<Rightarrow> disk_file option) \<Rightarrow> state" where
  "init mail year fs =
     \<lparr> email = mail,
       base_url = ''https://api.openalex.org'',
       current_year = year,
       five_years_ago = year - 5,
       period = str_int (year - 5) @ ''-'' @ str_int year,
       total_publications = 0,
       trace = [],
       files = fs \<rparr>"

text \<open>\<open>query_api\<close> (lines 68-93). The messages printed on an error are not modelled.\<close>

definition query_api ::
  "env \<Rightarrow> string \<Rightarrow> params option \<Rightarrow> state \<Rightarrow> response option \<times> state" where
  "query_api e endpoint params s =
     (let url = base_url s @ ''/'' @ endpoint;
          params = (case params of None \<Rightarrow> [] | Some p \<Rightarrow> p);
          params = dict_set ''mailto'' (PStr (email s)) params;
          req = \<lparr> url = url, rparams = params \<rparr>;
          response = api e req;
          s' = s \<lparr> trace := trace s @ [Query req] \<rparr>
      in if status_code response = 200 then (Some (body response), s') else (None, s'))"

text \<open>\<open>json.dump\<close> into a file of the data directory.\<close>

definition write_json :: "string \<Rightarrow> json \<Rightarrow> state \<Rightarrow> state" where
  "write_json name v s =
     s \<lparr> trace := trace s @ [Write name], files := (files s)(name \<mapsto> Parsed v) \<rparr>"

text \<open>A call of a \<open>visualize_*\<close> method on the data it is passed.\<close>

definition visualize :: "env \<Rightarrow> chart \<Rightarrow> json \<Rightarrow> state \<Rightarrow> (exn + unit) \<times> state" where
  "visualize e c v s =
     (let s' = s \<lparr> trace := trace s @ [Render c] \<rparr>
      in if viz_raises e c v then (Inl RenderError, s') else (Inr (), s'))"

text \<open>The requests sent: the queries among the events.\<close>

fun queries :: "event list \<Rightarrow> request list" where
  "queries [] = []"
| "queries (Query r # es) = r # queries es"
| "queries (_ # es) = queries es"

section \<open>Extraction steps\<close>

text \<open>
  Every step returns a pair: what the caller gets (\<open>Inl\<close> an exception that leaves the
  method, \<open>Inr\<close> the returned value) and the state afterwards, which is kept on an
  exception too, so that what had been written before the exception is visible.
  Calls of \<open>print\<close> are not modelled.
\<close>

text \<open>\<open>(count / total) * 100\<close> on Python integers.\<close>

definition pct :: "int \<Rightarrow> int \<Rightarrow> exn + rat" where
  "pct cnt denom =
     (if denom = 0 then Inl ZeroDivisionError else Inr (of_int cnt / of_int denom * 100))"

definition country_filter :: "state \<Rightarrow> string" where
  "country_filter s =
     ''authorships.institutions.country_code:EC,publication_year:'' @ period s"

text \<open>\<open>get_general_stats\<close> (lines 95-127).\<close>

definition params_general :: "state \<Rightarrow> params" where
  "params_general s = [(''filter'', PStr (country_filter s)), (''per_page'', PInt 1)]"

definition get_general_stats :: "env \<Rightarrow> state \<Rightarrow> (exn + json option) \<times> state" where
  "get_general_stats e s =
     (let (res, s1) = query_api e ''works'' (Some (params_general s)) s
      in case res of
           None \<Rightarrow> (Inr None, s1)
         | Some r \<Rightarrow>
            (case meta r of
               None \<Rightarrow> (Inr None, s1)
             | Some c \<Rightarrow>
                (let s2 = s1 \<lparr> total_publications := c \<rparr>;
                     metadata = JObj [(''total_publicaciones'', JInt (total_publications s2)),
                                      (''periodo'', JStr (period s2)),
                                      (''fecha_consulta'', JStr (today e))];
                     s3 = write_json ''metadatos_generales.json'' metadata s2
                 in (Inr (Some metadata), s3))))"

text \<open>An entry \<open>{'count': ..., 'percentage': ...}\<close> of a breakdown by category.\<close>

record oa_entry =
  count :: int
  percentage :: rat

type_synonym breakdown = "(string \<times> oa_entry) list"

definition enc_entry :: "oa_entry \<Rightarrow> json" where
  "enc_entry x = JObj [(''count'', JInt (count x)), (''percentage'', JNum (percentage x))]"

definition enc_breakdown :: "breakdown \<Rightarrow> json" where
  "enc_breakdown d = JObj (map (\<lambda>(k, x). (k, enc_entry x)) d)"

text \<open>The loop over the items of a \<open>group_by\<close> response by \<open>oa_status\<close> (lines 161-171, and
  with the area's count as the denominator lines 264-271).\<close>

fun oa_types_loop :: "int \<Rightarrow> (string \<times> int) list \<Rightarrow> breakdown \<Rightarrow> exn + breakdown" where
  "oa_types_loop denom [] d = Inr d"
| "oa_types_loop denom ((oa_type, cnt) # items) d =
     (case pct cnt denom of
        Inl x \<Rightarrow> Inl x
      | Inr p \<Rightarrow> oa_types_loop denom items (dict_set oa_type \<lparr> count = cnt, percentage = p \<rparr> d))"

record oa_stats =
  total_oa :: int
  percentage_oa :: rat
  oa_types :: breakdown

text \<open>\<open>get_oa_stats\<close> (lines 129-186).\<close>

definition params_oa :: "state \<Rightarrow> params" where
  "params_oa s = [(''filter'', PStr (country_filter s @ '',is_oa:true'')),
                  (''per_page'', PInt 1)]"

definition params_oa_types :: "state \<Rightarrow> params" where
  "params_oa_types s = [(''filter'', PStr (country_filter s)),
                        (''group_by'', PStr ''oa_status'')]"

definition get_oa_stats :: "env \<Rightarrow> state \<Rightarrow> (exn + oa_stats option) \<times> state" where
  "get_oa_stats e s =
     (let (results_oa, s1) = query_api e ''works'' (Some (params_oa s)) s
      in case results_oa of
           None \<Rightarrow> (Inr None, s1)
         | Some r \<Rightarrow>
            (case meta r of
               None \<Rightarrow> (Inr None, s1)
             | Some t_oa \<Rightarrow>
                (case pct t_oa (total_publications s1) of
                   Inl x \<Rightarrow> (Inl x, s1)
                 | Inr p_oa \<Rightarrow>
                    (let (results_oa_types, s2) =
                           query_api e ''works'' (Some (params_oa_types s1)) s1
                     in case results_oa_types of
                          None \<Rightarrow> (Inr None, s2)
                        | Some rt \<Rightarrow>
                           (case group_by rt of
                              None \<Rightarrow> (Inr None, s2)
                            | Some items \<Rightarrow>
                               (case oa_types_loop (total_publications s2) items [] of
                                  Inl x \<Rightarrow> (Inl x, s2)
                                | Inr oa_types_data \<Rightarrow>
                                   (let s3 = write_json ''datos_tipos_oa.json''
                                               (enc_breakdown oa_types_data) s2
                                    in case visualize e OaTypes (enc_breakdown oa_types_data) s3 of
                                         (Inl x, s4) \<Rightarrow> (Inl x, s4)
                                       | (Inr _, s4) \<Rightarrow>
                                           (Inr (Some \<lparr> total_oa = t_oa, percentage_oa = p_oa,
                                                        oa_types = oa_types_data \<rparr>), s4))))))))"

text \<open>The entry of one area in \<open>fields_data\<close>; the last three keys are set only when the
  later queries of the area succeed.\<close>

record field_entry =
  nombre :: string
  publicaciones :: int
  porcentaje :: rat
  publicaciones_oa :: "int option"
  porcentaje_oa :: "rat option"
  oa_status :: "breakdown option"

type_synonym fields = "(string \<times> field_entry) list"

definition opt_field :: "string \<Rightarrow> ('a \<Rightarrow> json) \<Rightarrow> 'a option \<Rightarrow> (string \<times> json) list" where
  "opt_field k f v = (case v of None \<Rightarrow> [] | Some x \<Rightarrow> [(k, f x)])"

definition enc_field :: "field_entry \<Rightarrow> json" where
  "enc_field x =
     JObj ([(''nombre'', JStr (nombre x)),
            (''publicaciones'', JInt (publicaciones x)),
            (''porcentaje'', JNum (porcentaje x))]
           @ opt_field ''publicaciones_oa'' JInt (publicaciones_oa x)
           @ opt_field ''porcentaje_oa'' JNum (porcentaje_oa x)
           @ opt_field ''oa_status'' enc_breakdown (oa_status x))"

definition enc_fields :: "fields \<Rightarrow> json" where
  "enc_fields d = JObj (map (\<lambda>(k, x). (k, enc_field x)) d)"

definition areas_conocimiento :: "(string \<times> string) list" where
  "areas_conocimiento =
     [(''https://openalex.org/C41008148'', ''Computer science''),
      (''https://openalex.org/C86803240'', ''Biology''),
      (''https://openalex.org/C185592680'', ''Chemistry''),
      (''https://openalex.org/C127313418'', ''Engineering''),
      (''https://openalex.org/C71924100'', ''Medicine''),
      (''https://openalex.org/C33923547'', ''Physics''),
      (''https://openalex.org/C144133560'', ''Mathematics''),
      (''https://openalex.org/C162324750'', ''Economics''),
      (''https://openalex.org/C17744445'', ''Political science''),
      (''https://openalex.org/C138885662'', ''Education''),
      (''https://openalex.org/C39432304'', ''Environmental science''),
      (''https://openalex.org/C15744967'', ''Psychology''),
      (''https://openalex.org/C121332964'', ''Sociology'')]"

text \<open>One round of the loop over the areas (lines 216-273).\<close>

definition params_area :: "state \<Rightarrow> string \<Rightarrow> params" where
  "params_area s area_id =
     [(''filter'', PStr (country_filter s @ '',concepts.id:'' @ area_id)),
      (''per_page'', PInt 1)]"

definition params_area_oa :: "state \<Rightarrow> string \<Rightarrow> params" where
  "params_area_oa s area_id =
     [(''filter'', PStr (country_filter s @ '',concepts.id:'' @ area_id @ '',is_oa:true'')),
      (''per_page'', PInt 1)]"

definition params_area_oa_types :: "state \<Rightarrow> string \<Rightarrow> params" where
  "params_area_oa_types s area_id =
     [(''filter'', PStr (country_filter s @ '',concepts.id:'' @ area_id)),
      (''group_by'', PStr ''oa_status'')]"

definition area_step ::
  "env \<Rightarrow> string \<times> string \<Rightarrow> fields \<Rightarrow> state \<Rightarrow> (exn + fields) \<times> state" where
  "area_step e area fields_data s =
     (let area_id = fst area; area_nombre = snd area;
          (results_area, s1) = query_api e ''works'' (Some (params_area s area_id)) s
      in case results_area of
           None \<Rightarrow> (Inr fields_data, s1)
         | Some r \<Rightarrow>
      (case meta r of
           None \<Rightarrow> (Inr fields_data, s1)
         | Some cnt \<Rightarrow>
      (case pct cnt (total_publications s1) of
           Inl x \<Rightarrow> (Inl x, s1)
         | Inr p \<Rightarrow>
      (let entry = \<lparr> nombre = area_nombre, publicaciones = cnt, porcentaje = p,
                     publicaciones_oa = None, porcentaje_oa = None, oa_status = None \<rparr>;
           fd1 = dict_set area_id entry fields_data;
           (results_area_oa, s2) = query_api e ''works'' (Some (params_area_oa s1 area_id)) s1
       in case results_area_oa of
            None \<Rightarrow> (Inr fd1, s2)
          | Some ro \<Rightarrow>
      (case meta ro of
            None \<Rightarrow> (Inr fd1, s2)
          | Some count_oa \<Rightarrow>
      (case pct count_oa cnt of
            Inl x \<Rightarrow> (Inl x, s2)
          | Inr p_oa \<Rightarrow>
      (let entry2 = entry \<lparr> publicaciones_oa := Some count_oa, porcentaje_oa := Some p_oa \<rparr>;
           fd2 = dict_set area_id entry2 fd1;
           (results_area_oa_types, s3) =
             query_api e ''works'' (Some (params_area_oa_types s2 area_id)) s2
       in case results_area_oa_types of
            None \<Rightarrow> (Inr fd2, s3)
          | Some rt \<Rightarrow>
      (case group_by rt of
            None \<Rightarrow> (Inr fd2, s3)
          | Some items \<Rightarrow>
      (case oa_types_loop cnt items [] of
            Inl x \<Rightarrow> (Inl x, s3)
          | Inr oa_data \<Rightarrow>
              (Inr (dict_set area_id (entry2 \<lparr> oa_status := Some oa_data \<rparr>) fd2), s3))))))))))"

fun areas_loop ::
  "env \<Rightarrow> (string \<times> string) list \<Rightarrow> fields \<Rightarrow> state \<Rightarrow> (exn + fields) \<times> state" where
  "areas_loop e [] fields_data s = (Inr fields_data, s)"
| "areas_loop e (area # areas) fields_data s =
     (case area_step e area fields_data s of
        (Inl x, s') \<Rightarrow> (Inl x, s')
      | (Inr fd, s') \<Rightarrow> areas_loop e areas fd s')"

text \<open>\<open>get_data_by_field\<close> (lines 188-282): the file is written and the charts are drawn
  after the loop, whatever the loop collected.\<close>

definition get_data_by_field :: "env \<Rightarrow> state \<Rightarrow> (exn + fields) \<times> state" where
  "get_data_by_field e s =
     (case areas_loop e areas_conocimiento [] s of
        (Inl x, s1) \<Rightarrow> (Inl x, s1)
      | (Inr fields_data, s1) \<Rightarrow>
         (let s2 = write_json ''datos_por_areas.json'' (enc_fields fields_data) s1
          in case visualize e FieldsData (enc_fields fields_data) s2 of
               (Inl x, s3) \<Rightarrow> (Inl x, s3)
             | (Inr _, s3) \<Rightarrow> (Inr fields_data, s3)))"

text \<open>\<open>x.get(k, default)\<close>: only a dictionary has the method.\<close>

fun py_get :: "json \<Rightarrow> string \<Rightarrow> json \<Rightarrow> exn + json" where
  "py_get (JObj d) k dflt = Inr (case map_of d k of None \<Rightarrow> dflt | Some v \<Rightarrow> v)"
| "py_get _ k dflt = Inl AttributeError"

definition bind_exn :: "exn + 'a \<Rightarrow> ('a \<Rightarrow> exn + 'b) \<Rightarrow> exn + 'b" where
  "bind_exn r f = (case r of Inl x \<Rightarrow> Inl x | Inr v \<Rightarrow> f v)"

text \<open>The record built for one author (lines 303-311), the dictionary's entries evaluated in
  the order written.\<close>

definition author_data :: "json \<Rightarrow> exn + json" where
  "author_data author =
     bind_exn (py_get author ''id'' JNull) (\<lambda>v_id.
     bind_exn (py_get author ''display_name'' JNull) (\<lambda>v_nombre.
     bind_exn (py_get author ''orcid'' JNull) (\<lambda>v_orcid.
     bind_exn (py_get author ''last_known_institution'' (JObj [])) (\<lambda>inst1.
     bind_exn (py_get inst1 ''display_name'' (JStr ''Desconocida'')) (\<lambda>v_institucion.
     bind_exn (py_get author ''last_known_institution'' (JObj [])) (\<lambda>inst2.
     bind_exn (py_get inst2 ''id'' (JStr [])) (\<lambda>v_institucion_id.
     bind_exn (py_get author ''works_count'' (JInt 0)) (\<lambda>v_total.
     bind_exn (py_get author ''cited_by_count'' (JInt 0)) (\<lambda>v_citas.
       Inr (JObj [(''id'', v_id),
                  (''nombre'', v_nombre),
                  (''orcid'', v_orcid),
                  (''institucion'', v_institucion),
                  (''institucion_id'', v_institucion_id),
                  (''publicaciones_total'', v_total),
                  (''citas'', v_citas)]))))))))))"

text \<open>The record built for one institution (lines 345-351).\<close>

definition inst_data :: "json \<Rightarrow> exn + json" where
  "inst_data inst =
     bind_exn (py_get inst ''id'' JNull) (\<lambda>v_id.
     bind_exn (py_get inst ''display_name'' JNull) (\<lambda>v_nombre.
     bind_exn (py_get inst ''type'' JNull) (\<lambda>v_tipo.
     bind_exn (py_get inst ''works_count'' (JInt 0)) (\<lambda>v_pubs.
     bind_exn (py_get inst ''cited_by_count'' (JInt 0)) (\<lambda>v_citas.
       Inr (JObj [(''id'', v_id),
                  (''nombre'', v_nombre),
                  (''tipo'', v_tipo),
                  (''publicaciones'', v_pubs),
                  (''citas'', v_citas)]))))))"

text \<open>A loop that appends one built record per entry and stops at the first exception
  (lines 302-312 and 344-352).\<close>

fun top_loop :: "(json \<Rightarrow> exn + json) \<Rightarrow> json list \<Rightarrow> json list \<Rightarrow> exn + json list" where
  "top_loop f [] acc = Inr acc"
| "top_loop f (x # xs) acc =
     (case f x of Inl err \<Rightarrow> Inl err | Inr d \<Rightarrow> top_loop f xs (acc @ [d]))"

text \<open>\<open>get_top_authors\<close> (lines 284-324).\<close>

definition params_authors :: params where
  "params_authors = [(''filter'', PStr ''last_known_institution.country_code:EC''),
                     (''sort'', PStr ''works_count:desc''),
                     (''per_page'', PInt 50)]"

definition get_top_authors :: "env \<Rightarrow> state \<Rightarrow> (exn + json list) \<times> state" where
  "get_top_authors e s =
     (let (results_authors, s1) = query_api e ''authors'' (Some params_authors) s
      in case results_authors of
           None \<Rightarrow> (Inr [], s1)
         | Some r \<Rightarrow>
            (case results r of
               None \<Rightarrow> (Inr [], s1)
             | Some rs \<Rightarrow>
                (case top_loop author_data (take 20 rs) [] of
                   Inl x \<Rightarrow> (Inl x, s1)
                 | Inr top_authors \<Rightarrow>
                    (let s2 = write_json ''autores_destacados.json'' (JArr top_authors) s1
                     in case visualize e TopAuthors (JArr top_authors) s2 of
                          (Inl x, s3) \<Rightarrow> (Inl x, s3)
                        | (Inr _, s3) \<Rightarrow> (Inr top_authors, s3)))))"

text \<open>\<open>get_top_institutions\<close> (lines 326-364).\<close>

definition params_institutions :: params where
  "params_institutions = [(''filter'', PStr ''country_code:EC''),
                          (''sort'', PStr ''works_count:desc''),
                          (''per_page'', PInt 25)]"

definition get_top_institutions :: "env \<Rightarrow> state \<Rightarrow> (exn + json list) \<times> state" where
  "get_top_institutions e s =
     (let (results_institutions, s1) =
            query_api e ''institutions'' (Some params_institutions) s
      in case results_institutions of
           None \<Rightarrow> (Inr [], s1)
         | Some r \<Rightarrow>
            (case results r of
               None \<Rightarrow> (Inr [], s1)
             | Some rs \<Rightarrow>
                (case top_loop inst_data (take 15 rs) [] of
                   Inl x \<Rightarrow> (Inl x, s1)
                 | Inr top_institutions \<Rightarrow>
                    (let s2 = write_json ''instituciones_destacadas.json''
                                (JArr top_institutions) s1
                     in case visualize e TopInstitutions (JArr top_institutions) s2 of
                          (Inl x, s3) \<Rightarrow> (Inl x, s3)
                        | (Inr _, s3) \<Rightarrow> (Inr top_institutions, s3)))))"

text \<open>The loop over the countries of the \<open>group_by\<close> response (lines 383-392).\<close>

fun collab_loop :: "int \<Rightarrow> (string \<times> int) list \<Rightarrow> breakdown \<Rightarrow> exn + breakdown" where
  "collab_loop denom [] d = Inr d"
| "collab_loop denom ((country, cnt) # items) d =
     (if country \<noteq> ''EC'' then
        (case pct cnt denom of
           Inl x \<Rightarrow> Inl x
         | Inr p \<Rightarrow> collab_loop denom items (dict_set country \<lparr> count = cnt, percentage = p \<rparr> d))
      else collab_loop denom items d)"

text \<open>\<open>get_international_collaboration\<close> (lines 366-403).\<close>

definition params_collab :: "state \<Rightarrow> params" where
  "params_collab s = [(''filter'', PStr (country_filter s)),
                      (''group_by'', PStr ''authorships.countries'')]"

definition get_international_collaboration :: "env \<Rightarrow> state \<Rightarrow> (exn + breakdown) \<times> state" where
  "get_international_collaboration e s =
     (let (results_collab, s1) = query_api e ''works'' (Some (params_collab s)) s
      in case results_collab of
           None \<Rightarrow> (Inr [], s1)
         | Some r \<Rightarrow>
            (case group_by r of
               None \<Rightarrow> (Inr [], s1)
             | Some items \<Rightarrow>
                (case collab_loop (total_publications s1) items [] of
                   Inl x \<Rightarrow> (Inl x, s1)
                 | Inr collab_data \<Rightarrow>
                    (let s2 = write_json ''colaboracion_internacional.json''
                                (enc_breakdown collab_data) s1
                     in case visualize e InternationalCollaboration
                               (enc_breakdown collab_data) s2 of
                          (Inl x, s3) \<Rightarrow> (Inl x, s3)
                        | (Inr _, s3) \<Rightarrow> (Inr collab_data, s3)))))"

section \<open>The summary step\<close>

text \<open>
  \<open>create_summary_analysis\<close> reads three of the files back and passes them through pandas.
  The pandas calls it makes are parameters of the model: \<open>DataFrame\<close> is
  \<open>pd.DataFrame(data)\<close>, \<open>DataFrame_empty\<close> is \<open>pd.DataFrame()\<close>, \<open>sort_values\<close> is
  \<open>df.sort_values(col, ascending=False)\<close>, \<open>getitem_cols\<close> is \<open>df[[...]]\<close>,
  \<open>to_dict_records\<close> is \<open>df.to_dict('records')\<close> and \<open>df_empty\<close> is \<open>df.empty\<close>.
\<close>

record 'f pandas =
  DataFrame :: "json \<Rightarrow> exn + 'f"
  DataFrame_empty :: 'f
  sort_values :: "string \<Rightarrow> 'f \<Rightarrow> exn + 'f"
  getitem_cols :: "string list \<Rightarrow> 'f \<Rightarrow> exn + 'f"
  to_dict_records :: "'f \<Rightarrow> exn + json"
  df_empty :: "'f \<Rightarrow> bool"

text \<open>\<open>open\<close> followed by \<open>json.load\<close>.\<close>

definition read_json :: "string \<Rightarrow> state \<Rightarrow> exn + json" where
  "read_json name s =
     (case files s name of
        None \<Rightarrow> Inl FileNotFoundError
      | Some Corrupt \<Rightarrow> Inl JSONDecodeError
      | Some (Parsed v) \<Rightarrow> Inr v)"

text \<open>\<open>x[k]\<close> with a string \<open>k\<close>, \<open>x.items()\<close> and \<open>len(x)\<close>.\<close>

fun py_getitem :: "json \<Rightarrow> string \<Rightarrow> exn + json" where
  "py_getitem (JObj d) k = (case map_of d k of None \<Rightarrow> Inl KeyError | Some v \<Rightarrow> Inr v)"
| "py_getitem _ k = Inl TypeError"

fun py_items :: "json \<Rightarrow> exn + (string \<times> json) list" where
  "py_items (JObj d) = Inr d"
| "py_items _ = Inl AttributeError"

fun py_len :: "json \<Rightarrow> exn + int" where
  "py_len (JArr xs) = Inr (int (length xs))"
| "py_len (JObj d) = Inr (int (length d))"
| "py_len (JStr cs) = Inr (int (length cs))"
| "py_len _ = Inl TypeError"

text \<open>\<open>s.replace(pat, '')\<close>: every occurrence of \<open>pat\<close> is removed, left to right.\<close>

fun str_remove :: "string \<Rightarrow> string \<Rightarrow> string" where
  "str_remove pat [] = []"
| "str_remove pat (c # cs) =
     (if pat \<noteq> [] \<and> take (length pat) (c # cs) = pat
      then str_remove pat (drop (length pat) (c # cs))
      else c # str_remove pat cs)"

text \<open>The loop of lines 751-756 over the items of the collaboration file.\<close>

fun collab_rows :: "(string \<times> json) list \<Rightarrow> json list \<Rightarrow> exn + json list" where
  "collab_rows [] acc = Inr acc"
| "collab_rows ((country, data) # rest) acc =
     bind_exn (py_getitem data ''count'') (\<lambda>c.
     bind_exn (py_getitem data ''percentage'') (\<lambda>p.
       collab_rows rest
         (acc @ [JObj [(''pais'', JStr (str_remove ''https://openalex.org/countries/'' country)),
                       (''publicaciones'', c),
                       (''porcentaje'', p)]])))"

text \<open>The three \<open>try\<close> blocks (lines 726-760): whatever is raised inside is caught by the
  bare \<open>except\<close>, which sets the defaults.\<close>

definition load_authors :: "'f pandas \<Rightarrow> state \<Rightarrow> json \<times> 'f \<times> 'f" where
  "load_authors pd s =
     (case bind_exn (read_json ''autores_destacados.json'' s) (\<lambda>top_authors.
           bind_exn (DataFrame pd top_authors) (\<lambda>df_authors.
           bind_exn (sort_values pd ''citas'' df_authors) (\<lambda>df_authors_citas.
             Inr (top_authors, df_authors, df_authors_citas)))) of
        Inl _ \<Rightarrow> (JArr [], DataFrame_empty pd, DataFrame_empty pd)
      | Inr t \<Rightarrow> t)"

definition load_institutions :: "'f pandas \<Rightarrow> state \<Rightarrow> json \<times> 'f" where
  "load_institutions pd s =
     (case bind_exn (read_json ''instituciones_destacadas.json'' s) (\<lambda>top_institutions.
           bind_exn (DataFrame pd top_institutions) (\<lambda>df_institutions.
             Inr (top_institutions, df_institutions))) of
        Inl _ \<Rightarrow> (JArr [], DataFrame_empty pd)
      | Inr t \<Rightarrow> t)"

definition load_collab :: "'f pandas \<Rightarrow> state \<Rightarrow> json \<times> 'f" where
  "load_collab pd s =
     (case bind_exn (read_json ''colaboracion_internacional.json'' s) (\<lambda>collab_data.
           bind_exn (py_items collab_data) (\<lambda>its.
           bind_exn (collab_rows its []) (\<lambda>collab_list.
           bind_exn (DataFrame pd (JArr collab_list)) (\<lambda>df_collab.
             Inr (collab_data, df_collab))))) of
        Inl _ \<Rightarrow> (JObj [], DataFrame_empty pd)
      | Inr t \<Rightarrow> t)"

text \<open>\<open>df[cols].to_dict('records') if not df.empty else []\<close>.\<close>

definition records_of :: "'f pandas \<Rightarrow> string list \<Rightarrow> 'f \<Rightarrow> exn + json" where
  "records_of pd cols df =
     (if \<not> df_empty pd df
      then bind_exn (getitem_cols pd cols df) (to_dict_records pd)
      else Inr (JArr []))"

text \<open>The three entries of \<open>analysis_results\<close> (lines 763-777).\<close>

definition authors_section :: "'f pandas \<Rightarrow> json \<times> 'f \<times> 'f \<Rightarrow> exn + json" where
  "authors_section pd l =
     (case l of (top_authors, df_authors, df_authors_citas) \<Rightarrow>
        bind_exn (py_len top_authors) (\<lambda>n.
        bind_exn (records_of pd [''nombre'', ''institucion'', ''publicaciones_total'']
                    df_authors) (\<lambda>prod.
        bind_exn (records_of pd [''nombre'', ''institucion'', ''citas'']
                    df_authors_citas) (\<lambda>cit.
          Inr (JObj [(''total_analizados'', JInt n),
                     (''mas_productivos'', prod),
                     (''mas_citados'', cit)])))))"

definition institutions_section :: "'f pandas \<Rightarrow> json \<times> 'f \<Rightarrow> exn + json" where
  "institutions_section pd l =
     (case l of (top_institutions, df_institutions) \<Rightarrow>
        bind_exn (py_len top_institutions) (\<lambda>n.
        bind_exn (records_of pd [''nombre'', ''publicaciones'', ''citas'']
                    df_institutions) (\<lambda>prod.
          Inr (JObj [(''total_analizadas'', JInt n),
                     (''mas_productivas'', prod)]))))"

definition collab_section :: "'f pandas \<Rightarrow> json \<times> 'f \<Rightarrow> exn + json" where
  "collab_section pd l =
     (case l of (collab_data, df_collab) \<Rightarrow>
        bind_exn (py_len collab_data) (\<lambda>n.
        bind_exn (records_of pd [''pais'', ''publicaciones'', ''porcentaje'']
                    df_collab) (\<lambda>princ.
          Inr (JObj [(''total_paises'', JInt n),
                     (''principales_colaboradores'', princ)]))))"

text \<open>\<open>create_summary_analysis\<close> (lines 716-784).\<close>

definition create_summary_analysis :: "'f pandas \<Rightarrow> state \<Rightarrow> (exn + json) \<times> state" where
  "create_summary_analysis pd s =
     (let la = load_authors pd s;
          li = load_institutions pd s;
          lc = load_collab pd s
      in case bind_exn (authors_section pd la) (\<lambda>a.
              bind_exn (institutions_section pd li) (\<lambda>i.
              bind_exn (collab_section pd lc) (\<lambda>c.
                Inr (JObj [(''autores_destacados'', a),
                           (''instituciones_destacadas'', i),
                           (''colaboracion_internacional'', c)])))) of
           Inl x \<Rightarrow> (Inl x, s)
         | Inr analysis_results \<Rightarrow>
             (Inr analysis_results, write_json ''analisis_resumido.json'' analysis_results s))"

text \<open>\<open>run_full_analysis\<close> (lines 786-815): the steps in order; an exception that leaves a
  step ends the run.\<close>

definition and_then ::
  "(exn + 'a) \<times> state \<Rightarrow> (state \<Rightarrow> (exn + 'b) \<times> state) \<Rightarrow> (exn + 'b) \<times> state" where
  "and_then r f = (case r of (Inl x, s) \<Rightarrow> (Inl x, s) | (Inr _, s) \<Rightarrow> f s)"

definition run_full_analysis :: "'f pandas \<Rightarrow> env \<Rightarrow> state \<Rightarrow> (exn + unit) \<times> state" where
  "run_full_analysis pd e s =
     and_then (get_general_stats e s) (\<lambda>s.
     and_then (get_oa_stats e s) (\<lambda>s.
     and_then (get_data_by_field e s) (\<lambda>s.
     and_then (get_top_authors e s) (\<lambda>s.
     and_then (get_top_institutions e s) (\<lambda>s.
     and_then (get_international_collaboration e s) (\<lambda>s.
     and_then (create_summary_analysis pd s) (\<lambda>s. (Inr (), s))))))))"

section \<open>Concrete runs\<close>

text \<open>An environment whose API answers every request with status 200 and the body \<open>r\<close>, and
  whose charts are drawn without an exception; one whose API answers every request with
  status 500; and an object as \<open>__init__\<close> leaves it, with \<open>n\<close> as its total.\<close>

definition up_env :: "response \<Rightarrow> env" where
  "up_env r =
     \<lparr> api = (\<lambda>_. \<lparr> status_code = 200, body = r \<rparr>),
       viz_raises = (\<lambda>_ _. False),
       today = ''2024-06-01'' \<rparr>"

definition down_env :: env where
  "down_env =
     \<lparr> api = (\<lambda>_. \<lparr> status_code = 500,
                      body = \<lparr> meta = None, group_by = None, results = None \<rparr> \<rparr>),
       viz_raises = (\<lambda>_ _. False),
       today = ''2024-06-01'' \<rparr>"

definition extractor :: "int \<Rightarrow> state" where
  "extractor n =
     \<lparr> email = ''a@b.ec'',
       base_url = ''https://api.openalex.org'',
       current_year = 2024,
       five_years_ago = 2019,
       period = ''2019-2024'',
       total_publications = n,
       trace = [],
       files = Map.empty \<rparr>"


text \<open>Entries on which the record builders do not raise: an author is a dictionary whose
  \<open>'last_known_institution'\<close> is absent or a dictionary, an institution is a dictionary.\<close>

fun is_dict :: "json \<Rightarrow> bool" where
  "is_dict (JObj d) = True"
| "is_dict _ = False"



text \<open>The request that \<open>query_api\<close> sends, and its answer as \<open>query_api\<close> returns it.\<close>

definition request_of :: "state \<Rightarrow> string \<Rightarrow> params option \<Rightarrow> request" where
  "request_of s endpoint ps =
     \<lparr> url = base_url s @ ''/'' @ endpoint,
       rparams = dict_set ''mailto'' (PStr (email s)) (case ps of None \<Rightarrow> [] | Some p \<Rightarrow> p) \<rparr>"

definition answer :: "env \<Rightarrow> state \<Rightarrow> string \<Rightarrow> params option \<Rightarrow> response option" where
  "answer e s endpoint ps =
     (if status_code (api e (request_of s endpoint ps)) = 200
      then Some (body (api e (request_of s endpoint ps))) else None)"

text \<open>A percentage is in range relative to its denominator when its count is.\<close>

definition entry_in_range :: "int \<Rightarrow> oa_entry \<Rightarrow> bool" where
  "entry_in_range denom x =
     (0 \<le> count x \<and> count x \<le> denom \<longrightarrow> 0 \<le> percentage x \<and> percentage x \<le> 100)"

definition breakdown_in_range :: "int \<Rightarrow> breakdown \<Rightarrow> bool" where
  "breakdown_in_range denom d = list_all (\<lambda>(k, x). entry_in_range denom x) d"

definition field_in_range :: "int \<Rightarrow> field_entry \<Rightarrow> bool" where
  "field_in_range tot f =
     ((0 \<le> publicaciones f \<and> publicaciones f \<le> tot \<longrightarrow>
         0 \<le> porcentaje f \<and> porcentaje f \<le> 100)
    \<and> (case (publicaciones_oa f, porcentaje_oa f) of
          (Some c, Some p) \<Rightarrow> (0 \<le> c \<and> c \<le> publicaciones f \<longrightarrow> 0 \<le> p \<and> p \<le> 100)
        | _ \<Rightarrow> True)
    \<and> (case oa_status f of
          Some d \<Rightarrow> breakdown_in_range (publicaciones f) d
        | None \<Rightarrow> True))"

definition fields_in_range :: "int \<Rightarrow> fields \<Rightarrow> bool" where
  "fields_in_range tot fd = list_all (\<lambda>(k, f). field_in_range tot f) fd"




definition oa_body :: response where
  "oa_body = \<lparr> meta = Some 4, group_by = Some [(''gold'', 3), (''closed'', 5)], results = None \<rparr>"




text \<open>The round of the loop over the areas divides by zero: the area's query is answered
  with a count, and either \<open>total_publications\<close> is 0, or that count is 0 and the area's
  open-access query is answered with a count too.\<close>

definition area_divides_by_zero :: "env \<Rightarrow> state \<Rightarrow> string \<times> string \<Rightarrow> bool" where
  "area_divides_by_zero e s area =
     (case answer e s ''works'' (Some (params_area s (fst area))) of
        None \<Rightarrow> False
      | Some r \<Rightarrow>
         (case meta r of
            None \<Rightarrow> False
          | Some cnt \<Rightarrow>
              total_publications s = 0
            \<or> (cnt = 0 \<and>
                (case answer e s ''works'' (Some (params_area_oa s (fst area))) of
                   None \<Rightarrow> False
                 | Some ro \<Rightarrow> meta ro \<noteq> None))))"



text \<open>A file that \<open>open\<close> and \<open>json.load\<close> do not deliver: missing, or not parseable.\<close>

definition unreadable :: "string \<Rightarrow> state \<Rightarrow> bool" where
  "unreadable name s = (case files s name of Some (Parsed v) \<Rightarrow> False | _ \<Rightarrow> True)"

text \<open>The three entries of the summary when nothing was read.\<close>

definition authors_default :: json where
  "authors_default =
     JObj [(''total_analizados'', JInt 0), (''mas_productivos'', JArr []),
           (''mas_citados'', JArr [])]"

definition institutions_default :: json where
  "institutions_default = JObj [(''total_analizadas'', JInt 0), (''mas_productivas'', JArr [])]"

definition collab_default :: json where
  "collab_default = JObj [(''total_paises'', JInt 0), (''principales_colaboradores'', JArr [])]"

text \<open>A stand-in for pandas to run the summary step on: a frame is the list of its records,
  a column exists when every record has it, and sorting is by the integer in the column.\<close>

definition col_of :: "json \<Rightarrow> string \<Rightarrow> json option" where
  "col_of r c = (case r of JObj d \<Rightarrow> map_of d c | _ \<Rightarrow> None)"

definition has_cols :: "string list \<Rightarrow> json list \<Rightarrow> bool" where
  "has_cols cs df = (df \<noteq> [] \<and> list_all (\<lambda>r. list_all (\<lambda>c. col_of r c \<noteq> None) cs) df)"

definition int_of_json :: "json \<Rightarrow> int" where
  "int_of_json v = (case v of JInt i \<Rightarrow> i | _ \<Rightarrow> 0)"

definition record_frames :: "(json list) pandas" where
  "record_frames =
     \<lparr> DataFrame = (\<lambda>v. case v of JArr rows \<Rightarrow> Inr rows | _ \<Rightarrow> Inl ValueError),
       DataFrame_empty = [],
       sort_values = (\<lambda>c df. if has_cols [c] df
                               then Inr (sort_key (\<lambda>r. - int_of_json (the (col_of r c))) df)
                               else Inl KeyError),
       getitem_cols = (\<lambda>cs df. if has_cols cs df
                                then Inr (map (\<lambda>r. JObj (map (\<lambda>c. (c, the (col_of r c))) cs)) df)
                                else Inl KeyError),
       to_dict_records = (\<lambda>df. Inr (JArr df)),
       df_empty = (\<lambda>df. df = []) \<rparr>"

section \<open>Properties of the API query\<close>

lemma map_of_dict_set:
  "map_of (dict_set k v d) = (map_of d)(k \<mapsto> v)"
  by (induction d) (auto simp: fun_eq_iff)

text \<open>
  Claim C8. For every endpoint and every parameter dictionary (or \<open>None\<close>), \<open>query_api\<close>
  sends exactly one request; its parameters hold \<open>'mailto'\<close> with the configured email,
  and every other parameter is the caller's, unchanged.
\<close>

theorem query_api_mailto:
  "\<exists>r. queries (trace (snd (query_api e endpoint ps s))) = queries (trace s) @ [r]
     \<and> url r = base_url s @ ''/'' @ endpoint
     \<and> map_of (rparams r) ''mailto'' = Some (PStr (email s))
     \<and> (\<forall>k. k \<noteq> ''mailto'' \<longrightarrow>
           map_of (rparams r) k = map_of (case ps of None \<Rightarrow> [] | Some p \<Rightarrow> p) k)"
proof -
  let ?p = "case ps of None \<Rightarrow> [] | Some p \<Rightarrow> p"
  let ?r = "\<lparr> url = base_url s @ ''/'' @ endpoint,
             rparams = dict_set ''mailto'' (PStr (email s)) ?p \<rparr>"
  have t: "trace (snd (query_api e endpoint ps s)) = trace s @ [Query ?r]"
    by (simp add: query_api_def Let_def)
  have "queries (xs @ [Query ?r]) = queries xs @ [?r]" for xs
    by (induction xs rule: queries.induct) simp_all
  with t have "queries (trace (snd (query_api e endpoint ps s))) = queries (trace s) @ [?r]"
    by simp
  moreover have "map_of (rparams ?r) ''mailto'' = Some (PStr (email s))"
    by (simp add: map_of_dict_set)
  moreover have "\<forall>k. k \<noteq> ''mailto'' \<longrightarrow> map_of (rparams ?r) k = map_of ?p k"
    by (simp add: map_of_dict_set)
  ultimately show ?thesis
    by (intro exI [of _ ?r]) simp
qed

theorem query_api_mailto_witness:
  "\<exists>r. queries (trace (snd (query_api down_env ''works''
                              (Some [(''per_page'', PInt 1)]) (extractor 0)))) = [r]
     \<and> map_of (rparams r) ''mailto'' = Some (PStr ''a@b.ec'')
     \<and> map_of (rparams r) ''per_page'' = Some (PInt 1)"
proof -
  from query_api_mailto [of down_env "''works''" "Some [(''per_page'', PInt 1)]" "extractor 0"]
  obtain r where
    q: "queries (trace (snd (query_api down_env ''works''
          (Some [(''per_page'', PInt 1)]) (extractor 0)))) = queries (trace (extractor 0)) @ [r]"
    and m: "map_of (rparams r) ''mailto'' = Some (PStr (email (extractor 0)))"
    and k: "\<forall>k. k \<noteq> ''mailto'' \<longrightarrow>
              map_of (rparams r) k = map_of [(''per_page'', PInt 1)] k"
    by auto
  have "''per_page'' \<noteq> ''mailto''" by simp
  with k have "map_of (rparams r) ''per_page'' = Some (PInt 1)" by simp
  with q m show ?thesis by (auto simp: extractor_def)
qed

section \<open>International collaboration\<close>












section \<open>Top authors and institutions\<close>



lemma py_get_Inl: "py_get v k dflt = Inl x \<longleftrightarrow> \<not> is_dict v \<and> x = AttributeError"
  by (cases v) auto



lemma visualize_cases:
  "visualize e c v s =
     (if viz_raises e c v then Inl RenderError else Inr (), s \<lparr> trace := trace s @ [Render c] \<rparr>)"
  by (simp add: visualize_def Let_def)





section \<open>Percentages\<close>

lemma query_api_eq:
  "query_api e ep ps s =
     (answer e s ep ps, s \<lparr> trace := trace s @ [Query (request_of s ep ps)] \<rparr>)"
  by (simp add: query_api_def answer_def request_of_def Let_def)

lemma request_of_trace [simp]:
  "request_of (s \<lparr> trace := t \<rparr>) ep ps = request_of s ep ps"
  by (simp add: request_of_def)

lemma answer_trace [simp]:
  "answer e (s \<lparr> trace := t \<rparr>) ep ps = answer e s ep ps"
  by (simp add: answer_def)

lemma country_filter_trace [simp]:
  "country_filter (s \<lparr> trace := t \<rparr>) = country_filter s"
  by (simp add: country_filter_def)

lemma pct_range:
  assumes "pct c t = Inr p" "0 \<le> c" "c \<le> t"
  shows "0 \<le> p \<and> p \<le> 100"
proof -
  from assms have t: "0 < t" and p: "p = of_int c / of_int t * 100"
    by (auto simp: pct_def split: if_splits)
  define q :: rat where "q = of_int c / of_int t"
  from t assms(2) have "0 \<le> q" by (simp add: q_def)
  moreover from t assms(3) have "q \<le> 1" by (simp add: q_def)
  moreover from p have "p = q * 100" by (simp add: q_def)
  ultimately show ?thesis by simp
qed

lemma pct_entry_in_range:
  "pct c t = Inr p \<Longrightarrow> entry_in_range t \<lparr> count = c, percentage = p \<rparr>"
  using pct_range [of c t p] by (simp add: entry_in_range_def)

lemma list_all_dict_set:
  "list_all P d \<Longrightarrow> P (k, v) \<Longrightarrow> list_all P (dict_set k v d)"
  by (induction d) auto

lemma oa_types_loop_in_range:
  "oa_types_loop t items d = Inr d' \<Longrightarrow> breakdown_in_range t d \<Longrightarrow> breakdown_in_range t d'"
proof (induction items arbitrary: d)
  case Nil
  then show ?case by simp
next
  case (Cons it items)
  obtain k c where it: "it = (k, c)" by (cases it)
  with Cons.prems obtain p where p: "pct c t = Inr p"
    and l: "oa_types_loop t items (dict_set k \<lparr> count = c, percentage = p \<rparr> d) = Inr d'"
    by (auto split: sum.splits)
  from Cons.prems(2) pct_entry_in_range [OF p]
  have "breakdown_in_range t (dict_set k \<lparr> count = c, percentage = p \<rparr> d)"
    unfolding breakdown_in_range_def by (intro list_all_dict_set) simp_all
  with Cons.IH [OF l] show ?case .
qed

lemma collab_loop_in_range:
  "collab_loop t items d = Inr d' \<Longrightarrow> breakdown_in_range t d \<Longrightarrow> breakdown_in_range t d'"
proof (induction items arbitrary: d)
  case Nil
  then show ?case by simp
next
  case (Cons it items)
  obtain k c where it: "it = (k, c)" by (cases it)
  show ?case
  proof (cases "k = ''EC''")
    case True
    with Cons it show ?thesis by simp
  next
    case False
    with it Cons.prems obtain p where p: "pct c t = Inr p"
      and l: "collab_loop t items (dict_set k \<lparr> count = c, percentage = p \<rparr> d) = Inr d'"
      by (auto split: sum.splits)
    from Cons.prems(2) pct_entry_in_range [OF p]
    have "breakdown_in_range t (dict_set k \<lparr> count = c, percentage = p \<rparr> d)"
      unfolding breakdown_in_range_def by (intro list_all_dict_set) simp_all
    with Cons.IH [OF l] show ?thesis .
  qed
qed

lemma oa_types_loop_Inl:
  "oa_types_loop t items d = Inl x \<longleftrightarrow> x = ZeroDivisionError \<and> t = 0 \<and> items \<noteq> []"
proof (induction items arbitrary: d)
  case Nil
  then show ?case by simp
next
  case (Cons it items)
  obtain k c where "it = (k, c)" by (cases it)
  with Cons show ?case
    by (cases "t = 0") (auto simp: pct_def)
qed

lemma breakdown_in_range_Nil [simp]: "breakdown_in_range t []"
  by (simp add: breakdown_in_range_def)

lemma get_oa_stats_written:
  "case get_oa_stats e s of (r, s') \<Rightarrow>
     files s' = files s
   \<or> (\<exists>d. files s' = (files s)(''datos_tipos_oa.json'' \<mapsto> Parsed (enc_breakdown d))
          \<and> breakdown_in_range (total_publications s) d
          \<and> (r = Inl RenderError \<or> (\<exists>st. r = Inr (Some st) \<and> oa_types st = d)))"
  by (auto simp: get_oa_stats_def query_api_eq visualize_cases write_json_def Let_def
           split: option.splits sum.splits
           dest: oa_types_loop_in_range)

lemma get_collab_written:
  "case get_international_collaboration e s of (r, s') \<Rightarrow>
     files s' = files s
   \<or> (\<exists>d. files s' = (files s)(''colaboracion_internacional.json'' \<mapsto> Parsed (enc_breakdown d))
          \<and> breakdown_in_range (total_publications s) d
          \<and> (r = Inl RenderError \<or> r = Inr d))"
  by (auto simp: get_international_collaboration_def query_api_eq visualize_cases write_json_def
                 Let_def
           split: option.splits sum.splits
           dest: collab_loop_in_range)

lemma area_step_state:
  "\<exists>qs. snd (area_step e a fd s) = s \<lparr> trace := trace s @ map Query qs \<rparr>
        \<and> 1 \<le> length qs \<and> length qs \<le> 3"
proof -
  let ?q1 = "request_of s ''works'' (Some (params_area s (fst a)))"
  let ?q2 = "request_of s ''works'' (Some (params_area_oa s (fst a)))"
  let ?q3 = "request_of s ''works'' (Some (params_area_oa_types s (fst a)))"
  have "snd (area_step e a fd s) = s \<lparr> trace := trace s @ map Query [?q1] \<rparr>
      \<or> snd (area_step e a fd s) = s \<lparr> trace := trace s @ map Query [?q1, ?q2] \<rparr>
      \<or> snd (area_step e a fd s) = s \<lparr> trace := trace s @ map Query [?q1, ?q2, ?q3] \<rparr>"
    by (simp add: area_step_def query_api_eq Let_def params_area_def params_area_oa_def
          params_area_oa_types_def split: option.splits sum.splits)
  then show ?thesis
    by (elim disjE) (rule exI, erule conjI, simp)+
qed

lemma fields_in_range_dict_set:
  "fields_in_range t fd \<Longrightarrow> field_in_range t f \<Longrightarrow> fields_in_range t (dict_set k f fd)"
  unfolding fields_in_range_def by (intro list_all_dict_set) simp_all

lemma params_area_trace [simp]:
  "params_area (s \<lparr> trace := t \<rparr>) a = params_area s a"
  "params_area_oa (s \<lparr> trace := t \<rparr>) a = params_area_oa s a"
  "params_area_oa_types (s \<lparr> trace := t \<rparr>) a = params_area_oa_types s a"
  by (simp_all add: params_area_def params_area_oa_def params_area_oa_types_def)

lemma pct_range_imp:
  "pct c t = Inr p \<Longrightarrow> 0 \<le> c \<and> c \<le> t \<longrightarrow> 0 \<le> p \<and> p \<le> 100"
  using pct_range [of c t p] by blast

lemma oa_types_loop_in_range_Nil:
  "oa_types_loop t items [] = Inr d \<Longrightarrow> breakdown_in_range t d"
  using oa_types_loop_in_range [of t items "[]" d] by simp

lemma area_step_in_range:
  assumes "area_step e a fd s = (Inr fd', s')"
      and "fields_in_range (total_publications s) fd"
  shows "fields_in_range (total_publications s) fd'"
  using assms
  by (auto simp: area_step_def query_api_eq Let_def field_in_range_def
           split: option.splits sum.splits
           intro!: fields_in_range_dict_set
           dest: pct_range_imp oa_types_loop_in_range_Nil)

lemma areas_loop_state:
  "\<exists>qs. snd (areas_loop e areas fd s) = s \<lparr> trace := trace s @ map Query qs \<rparr>
        \<and> length qs \<le> 3 * length areas
        \<and> ((\<exists>v. fst (areas_loop e areas fd s) = Inr v) \<longrightarrow> length areas \<le> length qs)"
proof (induction areas arbitrary: fd s)
  case Nil
  show ?case by (rule exI [of _ "[]"]) simp
next
  case (Cons a areas)
  obtain r s1 where st: "area_step e a fd s = (r, s1)" by (cases "area_step e a fd s")
  from area_step_state [of e a fd s] st obtain qs1 where
    s1: "s1 = s \<lparr> trace := trace s @ map Query qs1 \<rparr>" and l1: "1 \<le> length qs1" "length qs1 \<le> 3"
    by auto
  show ?case
  proof (cases r)
    case (Inl x)
    with st s1 l1 show ?thesis by (intro exI [of _ qs1]) simp
  next
    case (Inr fd1)
    from Cons.IH [of fd1 s1] obtain qs2 where
      s2: "snd (areas_loop e areas fd1 s1) = s1 \<lparr> trace := trace s1 @ map Query qs2 \<rparr>"
      and l2: "length qs2 \<le> 3 * length areas"
      and l3: "(\<exists>v. fst (areas_loop e areas fd1 s1) = Inr v) \<longrightarrow> length areas \<le> length qs2"
      by blast
    from st Inr s1 s2 l1 l2 l3 show ?thesis
      by (intro exI [of _ "qs1 @ qs2"]) auto
  qed
qed

lemma areas_loop_in_range:
  "areas_loop e areas fd s = (Inr fd', s') \<Longrightarrow> fields_in_range (total_publications s) fd
     \<Longrightarrow> fields_in_range (total_publications s) fd'"
proof (induction areas arbitrary: fd s)
  case Nil
  then show ?case by simp
next
  case (Cons a areas)
  obtain r s1 where st: "area_step e a fd s = (r, s1)" by (cases "area_step e a fd s")
  from area_step_state [of e a fd s] st have t: "total_publications s1 = total_publications s"
    by auto
  from Cons.prems(1) st obtain fd1 where r: "r = Inr fd1"
    and l: "areas_loop e areas fd1 s1 = (Inr fd', s')"
    by (cases r) auto
  from area_step_in_range [OF st [unfolded r] Cons.prems(2)]
  have "fields_in_range (total_publications s1) fd1" by (simp add: t)
  from Cons.IH [OF l this] t show ?case by simp
qed

lemma get_data_by_field_written:
  "case get_data_by_field e s of (r, s') \<Rightarrow>
     files s' = files s
   \<or> (\<exists>fd. files s' = (files s)(''datos_por_areas.json'' \<mapsto> Parsed (enc_fields fd))
          \<and> fields_in_range (total_publications s) fd
          \<and> (r = Inl RenderError \<or> r = Inr fd))"
proof -
  obtain r s1 where l: "areas_loop e areas_conocimiento [] s = (r, s1)"
    by (cases "areas_loop e areas_conocimiento [] s")
  from areas_loop_state [of e areas_conocimiento "[]" s] l
  have f: "files s1 = files s" by auto
  show ?thesis
  proof (cases r)
    case (Inl x)
    with l f show ?thesis by (simp add: get_data_by_field_def)
  next
    case (Inr fd)
    from areas_loop_in_range [OF l [unfolded Inr]]
    have "fields_in_range (total_publications s) fd" by (simp add: fields_in_range_def)
    with l Inr f show ?thesis
      by (auto simp: get_data_by_field_def visualize_cases write_json_def Let_def)
  qed
qed

text \<open>
  Claim C1. Whatever file an extraction step writes, every percentage in it is between 0 and
  100 whenever its count is between 0 and its denominator: \<open>total_publications\<close> for the
  entries of \<open>datos_tipos_oa.json\<close> and \<open>colaboracion_internacional.json\<close> and for
  \<open>'porcentaje'\<close>, the area's count for \<open>'porcentaje_oa'\<close> and for the entries of
  \<open>'oa_status'\<close> in \<open>datos_por_areas.json\<close>. A step that does not write leaves the files
  as they were.
\<close>

theorem percentages_in_range:
  "(case get_oa_stats e s of (r, s') \<Rightarrow>
      files s' = files s
    \<or> (\<exists>d. files s' = (files s)(''datos_tipos_oa.json'' \<mapsto> Parsed (enc_breakdown d))
           \<and> breakdown_in_range (total_publications s) d
           \<and> (r = Inl RenderError \<or> (\<exists>st. r = Inr (Some st) \<and> oa_types st = d))))
 \<and> (case get_international_collaboration e s of (r, s') \<Rightarrow>
      files s' = files s
    \<or> (\<exists>d. files s' = (files s)(''colaboracion_internacional.json'' \<mapsto>
                                   Parsed (enc_breakdown d))
           \<and> breakdown_in_range (total_publications s) d
           \<and> (r = Inl RenderError \<or> r = Inr d)))
 \<and> (case get_data_by_field e s of (r, s') \<Rightarrow>
      files s' = files s
    \<or> (\<exists>fd. files s' = (files s)(''datos_por_areas.json'' \<mapsto> Parsed (enc_fields fd))
           \<and> fields_in_range (total_publications s) fd
           \<and> (r = Inl RenderError \<or> r = Inr fd)))"
  using get_oa_stats_written [where e = e and s = s]
    get_collab_written [where e = e and s = s]
    get_data_by_field_written [where e = e and s = s]
  by (intro conjI)

lemma oa_run:
  "get_oa_stats (up_env oa_body) (extractor 10) =
     (Inr (Some \<lparr> total_oa = 4, percentage_oa = 40,
                   oa_types = [(''gold'', \<lparr> count = 3, percentage = 30 \<rparr>),
                               (''closed'', \<lparr> count = 5, percentage = 50 \<rparr>)] \<rparr>),
      (extractor 10)
        \<lparr> trace := [Query (request_of (extractor 10) ''works'' (Some (params_oa (extractor 10)))),
                    Query (request_of (extractor 10) ''works''
                             (Some (params_oa_types (extractor 10)))),
                    Write ''datos_tipos_oa.json'', Render OaTypes],
          files := [''datos_tipos_oa.json'' \<mapsto>
                      Parsed (enc_breakdown [(''gold'', \<lparr> count = 3, percentage = 30 \<rparr>),
                                             (''closed'', \<lparr> count = 5, percentage = 50 \<rparr>)])] \<rparr>)"
  by (simp add: get_oa_stats_def query_api_eq answer_def up_env_def oa_body_def pct_def
        visualize_cases write_json_def Let_def params_oa_types_def params_oa_def
        request_of_def country_filter_def extractor_def)

theorem percentages_in_range_witness:
  "fst (get_oa_stats (up_env oa_body) (extractor 10)) =
     Inr (Some \<lparr> total_oa = 4, percentage_oa = 40,
                  oa_types = [(''gold'', \<lparr> count = 3, percentage = 30 \<rparr>),
                              (''closed'', \<lparr> count = 5, percentage = 50 \<rparr>)] \<rparr>)
   \<and> list_all (\<lambda>(k, x). 0 \<le> count x \<and> count x \<le> total_publications (extractor 10))
        [(''gold'', \<lparr> count = 3, percentage = 30 \<rparr>), (''closed'', \<lparr> count = 5, percentage = 50 \<rparr>)]
   \<and> breakdown_in_range (total_publications (extractor 10))
        [(''gold'', \<lparr> count = 3, percentage = 30 \<rparr>), (''closed'', \<lparr> count = 5, percentage = 50 \<rparr>)]"
proof -
  let ?d = "[(''gold'', \<lparr> count = 3, percentage = 30::rat \<rparr>),
             (''closed'', \<lparr> count = 5, percentage = 50 \<rparr>)]"
  from percentages_in_range [where e = "up_env oa_body" and s = "extractor 10"]
  have "case get_oa_stats (up_env oa_body) (extractor 10) of (r, s') \<Rightarrow>
      files s' = files (extractor 10)
    \<or> (\<exists>d. files s' = (files (extractor 10))(''datos_tipos_oa.json'' \<mapsto> Parsed (enc_breakdown d))
           \<and> breakdown_in_range (total_publications (extractor 10)) d
           \<and> (r = Inl RenderError \<or> (\<exists>st. r = Inr (Some st) \<and> oa_types st = d)))"
    by (rule conjunct1)
  moreover have "[''datos_tipos_oa.json'' \<mapsto> Parsed (enc_breakdown ?d)] \<noteq> files (extractor 10)"
    by (auto simp: extractor_def fun_eq_iff)
  ultimately have b: "breakdown_in_range (total_publications (extractor 10)) ?d"
    by (auto simp: oa_run)
  have r: "fst (get_oa_stats (up_env oa_body) (extractor 10)) =
             Inr (Some \<lparr> total_oa = 4, percentage_oa = 40, oa_types = ?d \<rparr>)"
    by (simp add: oa_run)
  have c: "list_all (\<lambda>(k, x). 0 \<le> count x \<and> count x \<le> total_publications (extractor 10)) ?d"
    by (simp add: extractor_def)
  from r c b show ?thesis by (intro conjI)
qed

section \<open>The open-access breakdown\<close>













section \<open>Division by zero\<close>

lemma collab_loop_Inl_iff:
  "collab_loop t items d = Inl x \<longleftrightarrow>
     x = ZeroDivisionError \<and> t = 0 \<and> (\<exists>k \<in> fst ` set items. k \<noteq> ''EC'')"
proof (induction items arbitrary: d)
  case Nil
  then show ?case by simp
next
  case (Cons it items)
  obtain k c where "it = (k, c)" by (cases it)
  with Cons show ?case
    by (cases "t = 0") (auto simp: pct_def)
qed

lemma get_oa_stats_zero_division:
  "fst (get_oa_stats e s) = Inl ZeroDivisionError \<longleftrightarrow>
     total_publications s = 0
     \<and> (\<exists>r c. answer e s ''works'' (Some (params_oa s)) = Some r \<and> meta r = Some c)"
  by (auto simp: get_oa_stats_def query_api_eq visualize_cases Let_def pct_def
        oa_types_loop_Inl split: option.splits sum.splits if_splits)

lemma get_collab_zero_division:
  "fst (get_international_collaboration e s) = Inl ZeroDivisionError \<longleftrightarrow>
     total_publications s = 0
     \<and> (\<exists>r items. answer e s ''works'' (Some (params_collab s)) = Some r
            \<and> group_by r = Some items \<and> (\<exists>k \<in> fst ` set items. k \<noteq> ''EC''))"
proof (cases "answer e s ''works'' (Some (params_collab s))")
  case None
  then show ?thesis
    by (simp add: get_international_collaboration_def query_api_eq)
next
  case (Some r)
  show ?thesis
  proof (cases "group_by r")
    case None
    with Some show ?thesis
      by (simp add: get_international_collaboration_def query_api_eq)
  next
    case g: (Some items)
    show ?thesis
    proof (cases "collab_loop (total_publications s) items []")
      case (Inl x)
      with Some g collab_loop_Inl_iff [of "total_publications s" items "[]" x] show ?thesis
        by (simp add: get_international_collaboration_def query_api_eq)
    next
      case (Inr d)
      with collab_loop_Inl_iff [of "total_publications s" items "[]" ZeroDivisionError]
      have "\<not> (total_publications s = 0 \<and> (\<exists>k \<in> fst ` set items. k \<noteq> ''EC''))"
        by simp
      with Some g Inr show ?thesis
        by (simp add: get_international_collaboration_def query_api_eq visualize_cases Let_def)
    qed
  qed
qed

lemma area_step_Inl:
  "fst (area_step e a fd s) = Inl x \<longleftrightarrow> x = ZeroDivisionError \<and> area_divides_by_zero e s a"
  by (auto simp: area_step_def query_api_eq Let_def pct_def area_divides_by_zero_def
        oa_types_loop_Inl split: option.splits sum.splits if_splits)

lemma area_divides_by_zero_trace [simp]:
  "area_divides_by_zero e (s \<lparr> trace := t \<rparr>) a = area_divides_by_zero e s a"
  by (simp add: area_divides_by_zero_def cong: option.case_cong)

lemma areas_loop_Inl:
  "fst (areas_loop e areas fd s) = Inl x \<longleftrightarrow>
     x = ZeroDivisionError \<and> (\<exists>a \<in> set areas. area_divides_by_zero e s a)"
proof (induction areas arbitrary: fd s)
  case Nil
  show ?case by simp
next
  case (Cons a areas)
  obtain r s1 where st: "area_step e a fd s = (r, s1)" by (cases "area_step e a fd s")
  from area_step_state [of e a fd s] st obtain qs where
    s1: "s1 = s \<lparr> trace := trace s @ map Query qs \<rparr>" by auto
  show ?case
  proof (cases r)
    case (Inl y)
    with st area_step_Inl [of e a fd s y] show ?thesis by auto
  next
    case (Inr fd1)
    with st area_step_Inl [of e a fd s] have "\<not> area_divides_by_zero e s a" by simp
    with st Inr Cons.IH [of fd1 s1] s1 show ?thesis by simp
  qed
qed

lemma get_data_by_field_zero_division:
  "fst (get_data_by_field e s) = Inl ZeroDivisionError \<longleftrightarrow>
     (\<exists>a \<in> set areas_conocimiento. area_divides_by_zero e s a)"
proof -
  obtain r s1 where l: "areas_loop e areas_conocimiento [] s = (r, s1)"
    by (cases "areas_loop e areas_conocimiento [] s")
  show ?thesis
  proof (cases r)
    case (Inl x)
    with l areas_loop_Inl [of e areas_conocimiento "[]" s x] show ?thesis
      by (auto simp: get_data_by_field_def)
  next
    case (Inr fd)
    with l areas_loop_Inl [of e areas_conocimiento "[]" s ZeroDivisionError] show ?thesis
      by (auto simp: get_data_by_field_def visualize_cases write_json_def Let_def)
  qed
qed

text \<open>
  Claim C2, as amended. The check before a division is on the response (it exists and has the
  key read), not on the denominator. \<open>get_oa_stats\<close> raises \<open>ZeroDivisionError\<close> exactly
  when \<open>total_publications\<close> is 0 and its first query is answered with a count;
  \<open>get_international_collaboration\<close> exactly when \<open>total_publications\<close> is 0 and the
  response has a country other than \<open>'EC'\<close>; \<open>get_data_by_field\<close> exactly when, for some
  area, the area's query is answered with a count and either \<open>total_publications\<close> is 0 or
  that count is 0 and the area's open-access query is answered with a count. With non-zero
  denominators no division by zero occurs.
\<close>

theorem zero_division_iff_zero_denominator:
  "(fst (get_oa_stats e s) = Inl ZeroDivisionError \<longleftrightarrow>
      total_publications s = 0
      \<and> (\<exists>r c. answer e s ''works'' (Some (params_oa s)) = Some r \<and> meta r = Some c))
 \<and> (fst (get_international_collaboration e s) = Inl ZeroDivisionError \<longleftrightarrow>
      total_publications s = 0
      \<and> (\<exists>r items. answer e s ''works'' (Some (params_collab s)) = Some r
             \<and> group_by r = Some items \<and> (\<exists>k \<in> fst ` set items. k \<noteq> ''EC'')))
 \<and> (fst (get_data_by_field e s) = Inl ZeroDivisionError \<longleftrightarrow>
      (\<exists>a \<in> set areas_conocimiento. area_divides_by_zero e s a))"
  using get_oa_stats_zero_division [of e s] get_collab_zero_division [of e s]
    get_data_by_field_zero_division [of e s]
  by (intro conjI)

theorem zero_division_iff_zero_denominator_witness:
  "total_publications (extractor 0) = 0
   \<and> answer (up_env oa_body) (extractor 0) ''works'' (Some (params_oa (extractor 0)))
       = Some oa_body
   \<and> meta oa_body = Some 4
   \<and> fst (get_oa_stats (up_env oa_body) (extractor 0)) = Inl ZeroDivisionError
   \<and> total_publications (extractor 10) \<noteq> 0
   \<and> fst (get_oa_stats (up_env oa_body) (extractor 10)) \<noteq> Inl ZeroDivisionError"
proof -
  have t: "total_publications (extractor 0) = 0" by (simp add: extractor_def)
  have a: "answer (up_env oa_body) (extractor 0) ''works'' (Some (params_oa (extractor 0)))
             = Some oa_body"
    by (simp add: answer_def up_env_def)
  have m: "meta oa_body = Some 4" by (simp add: oa_body_def)
  have t10: "total_publications (extractor 10) \<noteq> 0" by (simp add: extractor_def)
  note z = zero_division_iff_zero_denominator [THEN conjunct1]
  from z [of "up_env oa_body" "extractor 0"] t a m
  have r0: "fst (get_oa_stats (up_env oa_body) (extractor 0)) = Inl ZeroDivisionError"
    by blast
  from z [of "up_env oa_body" "extractor 10"] t10
  have r10: "fst (get_oa_stats (up_env oa_body) (extractor 10)) \<noteq> Inl ZeroDivisionError"
    by blast
  from t a m r0 t10 r10 show ?thesis by (intro conjI)
qed

theorem division_unguarded_counterexample:
  "total_publications (init ''a@b.ec'' 2024 Map.empty) = 0
   \<and> fst (get_general_stats down_env (init ''a@b.ec'' 2024 Map.empty)) = Inr None
   \<and> total_publications (snd (get_general_stats down_env (init ''a@b.ec'' 2024 Map.empty))) = 0
   \<and> fst (get_oa_stats (up_env oa_body)
             (snd (get_general_stats down_env (init ''a@b.ec'' 2024 Map.empty))))
       = Inl ZeroDivisionError"
proof -
  let ?s = "init ''a@b.ec'' 2024 Map.empty"
  have g: "get_general_stats down_env ?s
             = (Inr None, ?s \<lparr> trace := trace ?s
                  @ [Query (request_of ?s ''works'' (Some (params_general ?s)))] \<rparr>)"
    by (simp add: get_general_stats_def query_api_eq answer_def down_env_def)
  have t: "total_publications ?s = 0" by (simp add: init_def)
  have "fst (get_oa_stats (up_env oa_body) (?s \<lparr> trace := tr \<rparr>)) = Inl ZeroDivisionError" for tr
    by (simp add: get_oa_stats_def query_api_eq answer_def up_env_def oa_body_def pct_def t)
  with g t show ?thesis by simp
qed

section \<open>Failed queries\<close>

lemma params_trace [simp]:
  "params_general (s \<lparr> trace := t \<rparr>) = params_general s"
  "params_oa (s \<lparr> trace := t \<rparr>) = params_oa s"
  "params_oa_types (s \<lparr> trace := t \<rparr>) = params_oa_types s"
  "params_collab (s \<lparr> trace := t \<rparr>) = params_collab s"
  by (simp_all add: params_general_def params_oa_def params_oa_types_def params_collab_def)












lemma down_env_answer [simp]: "answer down_env s ep ps = None"
  by (simp add: answer_def down_env_def)



section \<open>The order of events in a step\<close>










section \<open>The summary with missing inputs\<close>

lemma unreadable_read_json: "unreadable name s \<Longrightarrow> \<exists>x. read_json name s = Inl x"
  by (auto simp: unreadable_def read_json_def split: option.splits disk_file.splits)

lemma load_authors_unreadable:
  "unreadable ''autores_destacados.json'' s \<Longrightarrow>
     load_authors pd s = (JArr [], DataFrame_empty pd, DataFrame_empty pd)"
  by (auto simp: load_authors_def bind_exn_def dest!: unreadable_read_json)

lemma load_institutions_unreadable:
  "unreadable ''instituciones_destacadas.json'' s \<Longrightarrow>
     load_institutions pd s = (JArr [], DataFrame_empty pd)"
  by (auto simp: load_institutions_def bind_exn_def dest!: unreadable_read_json)

lemma load_collab_unreadable:
  "unreadable ''colaboracion_internacional.json'' s \<Longrightarrow>
     load_collab pd s = (JObj [], DataFrame_empty pd)"
  by (auto simp: load_collab_def bind_exn_def dest!: unreadable_read_json)

lemma records_of_empty:
  "df_empty pd (DataFrame_empty pd) \<Longrightarrow> records_of pd cols (DataFrame_empty pd) = Inr (JArr [])"
  by (simp add: records_of_def)

lemma create_summary_analysis_sections:
  assumes "authors_section pd (load_authors pd s) = Inr a"
      and "institutions_section pd (load_institutions pd s) = Inr i"
      and "collab_section pd (load_collab pd s) = Inr c"
  shows "create_summary_analysis pd s =
           (Inr (JObj [(''autores_destacados'', a),
                       (''instituciones_destacadas'', i),
                       (''colaboracion_internacional'', c)]),
            write_json ''analisis_resumido.json''
              (JObj [(''autores_destacados'', a),
                     (''instituciones_destacadas'', i),
                     (''colaboracion_internacional'', c)]) s)"
  using assms by (simp add: create_summary_analysis_def bind_exn_def Let_def)

text \<open>
  Claim C6. Provided \<open>pd.DataFrame()\<close> is an empty frame: whichever of the three input
  files are missing or not parseable, the entry of each such file in the summary is the
  default (a total of 0 and empty lists of records), building it does not raise, and the
  step returns and writes \<open>analisis_resumido.json\<close> as soon as the entries of the files that
  were read are built without an exception; with all three files missing it returns the
  defaults and writes them.
\<close>

theorem summary_defaults_for_missing_inputs:
  assumes emp: "df_empty pd (DataFrame_empty pd)"
  shows "(unreadable ''autores_destacados.json'' s \<longrightarrow>
            authors_section pd (load_authors pd s) = Inr authors_default)
       \<and> (unreadable ''instituciones_destacadas.json'' s \<longrightarrow>
            institutions_section pd (load_institutions pd s) = Inr institutions_default)
       \<and> (unreadable ''colaboracion_internacional.json'' s \<longrightarrow>
            collab_section pd (load_collab pd s) = Inr collab_default)
       \<and> (\<forall>a i c. authors_section pd (load_authors pd s) = Inr a
                  \<and> institutions_section pd (load_institutions pd s) = Inr i
                  \<and> collab_section pd (load_collab pd s) = Inr c \<longrightarrow>
            create_summary_analysis pd s =
              (Inr (JObj [(''autores_destacados'', a),
                          (''instituciones_destacadas'', i),
                          (''colaboracion_internacional'', c)]),
               write_json ''analisis_resumido.json''
                 (JObj [(''autores_destacados'', a),
                        (''instituciones_destacadas'', i),
                        (''colaboracion_internacional'', c)]) s))
       \<and> (unreadable ''autores_destacados.json'' s
            \<and> unreadable ''instituciones_destacadas.json'' s
            \<and> unreadable ''colaboracion_internacional.json'' s \<longrightarrow>
            create_summary_analysis pd s =
              (Inr (JObj [(''autores_destacados'', authors_default),
                          (''instituciones_destacadas'', institutions_default),
                          (''colaboracion_internacional'', collab_default)]),
               write_json ''analisis_resumido.json''
                 (JObj [(''autores_destacados'', authors_default),
                        (''instituciones_destacadas'', institutions_default),
                        (''colaboracion_internacional'', collab_default)]) s))"
proof -
  have a: "authors_section pd (load_authors pd s) = Inr authors_default"
    if "unreadable ''autores_destacados.json'' s"
    using load_authors_unreadable [OF that, of pd] records_of_empty [OF emp]
    by (simp add: authors_section_def bind_exn_def authors_default_def)
  have i: "institutions_section pd (load_institutions pd s) = Inr institutions_default"
    if "unreadable ''instituciones_destacadas.json'' s"
    using load_institutions_unreadable [OF that, of pd] records_of_empty [OF emp]
    by (simp add: institutions_section_def bind_exn_def institutions_default_def)
  have c: "collab_section pd (load_collab pd s) = Inr collab_default"
    if "unreadable ''colaboracion_internacional.json'' s"
    using load_collab_unreadable [OF that, of pd] records_of_empty [OF emp]
    by (simp add: collab_section_def bind_exn_def collab_default_def)
  from a i c create_summary_analysis_sections [of pd s] show ?thesis
    by (intro conjI impI allI) blast+
qed

theorem summary_defaults_for_missing_inputs_witness:
  "df_empty record_frames (DataFrame_empty record_frames)
   \<and> unreadable ''autores_destacados.json'' (extractor 0)
   \<and> unreadable ''instituciones_destacadas.json'' (extractor 0)
   \<and> unreadable ''colaboracion_internacional.json'' (extractor 0)
   \<and> fst (create_summary_analysis record_frames (extractor 0)) =
       Inr (JObj [(''autores_destacados'', authors_default),
                  (''instituciones_destacadas'', institutions_default),
                  (''colaboracion_internacional'', collab_default)])
   \<and> files (snd (create_summary_analysis record_frames (extractor 0)))
         ''analisis_resumido.json'' =
       Some (Parsed (JObj [(''autores_destacados'', authors_default),
                           (''instituciones_destacadas'', institutions_default),
                           (''colaboracion_internacional'', collab_default)]))"
proof -
  have e: "df_empty record_frames (DataFrame_empty record_frames)"
    by (simp add: record_frames_def)
  have u: "unreadable n (extractor 0)" for n
    by (simp add: unreadable_def extractor_def)
  from summary_defaults_for_missing_inputs [OF e, of "extractor 0"] u
  have "create_summary_analysis record_frames (extractor 0) =
              (Inr (JObj [(''autores_destacados'', authors_default),
                          (''instituciones_destacadas'', institutions_default),
                          (''colaboracion_internacional'', collab_default)]),
               write_json ''analisis_resumido.json''
                 (JObj [(''autores_destacados'', authors_default),
                        (''instituciones_destacadas'', institutions_default),
                        (''colaboracion_internacional'', collab_default)]) (extractor 0))"
    by blast
  with e u show ?thesis by (simp add: write_json_def)
qed

end
